theory Spec2Isabelle
  imports Complex_Main
begin

section \<open>Structural types of \<^verbatim>\<open>frontend/src/types/menu.ts\<close>\<close>

text \<open>
  The source file declares seven interfaces and nothing else. An interface denotes the
  set of values assignable to it, so the embedding has three parts: the values a
  TypeScript expression can evaluate to, the types the declarations are built from, and
  the assignability check between them. The check is the one of the TypeScript compiler
  with \<^verbatim>\<open>strictNullChecks\<close> on (\<^verbatim>\<open>null\<close> and \<^verbatim>\<open>undefined\<close> belong to no type that does not
  name them) and \<^verbatim>\<open>exactOptionalPropertyTypes\<close> off (an optional property may be written
  with the value \<^verbatim>\<open>undefined\<close>). Properties that a type does not declare are not
  inspected, with the one exception the compiler makes: a type whose members are all
  optional (a weak type) takes an object that has properties only when one of them is
  a property the type declares.
\<close>

subsection \<open>Values\<close>

text \<open>
  An object is an association list from property names to values; a property is read
  with \<open>map_of\<close>. A property that is present with the value \<^verbatim>\<open>undefined\<close> is an entry
  \<open>(k, JUndefined)\<close>, an absent one has no entry. The payload of \<open>JNum\<close> stands for the
  IEEE double; no definition below inspects it.
\<close>

datatype jsval =
    JUndefined
  | JNull
  | JBool bool
  | JNum real
  | JStr string
  | JArr "jsval list"
  | JObj "(string \<times> jsval) list"

subsection \<open>Types\<close>

text \<open>
  A property declaration is its name, whether it carries the \<^verbatim>\<open>?\<close> modifier, and its
  type. \<open>TIndex t\<close> is the type \<^verbatim>\<open>{ [key: string]: t }\<close>.
\<close>

datatype ty =
    TNumber
  | TString
  | TBoolean
  | TNull
  | TNever
  | TArray ty
  | TUnion ty ty
  | TIndex ty
  | TObject "(string \<times> bool \<times> ty) list"

type_synonym member = "string \<times> bool \<times> ty"
type_synonym interface = "member list"

definition pname :: "member \<Rightarrow> string" where
  "pname p = fst p"

definition poptional :: "member \<Rightarrow> bool" where
  "poptional p = fst (snd p)"

definition ptype :: "member \<Rightarrow> ty" where
  "ptype p = snd (snd p)"

definition required :: "string \<Rightarrow> ty \<Rightarrow> member" where
  "required k t = (k, False, t)"

definition optional :: "string \<Rightarrow> ty \<Rightarrow> member" where
  "optional k t = (k, True, t)"

subsection \<open>Assignability\<close>

text \<open>
  A weak type is an object type with at least one member, all of them optional. An
  object passes the check against a weak type when it has no property at all, or when
  one of its property names is a member of the type.
\<close>

definition is_weak :: "interface \<Rightarrow> bool" where
  "is_weak ps = (ps \<noteq> [] \<and> list_all poptional ps)"

definition shares_property :: "interface \<Rightarrow> (string \<times> jsval) list \<Rightarrow> bool" where
  "shares_property ps kvs = (kvs = [] \<or> list_ex (\<lambda>k. k \<in> set (map pname ps)) (map fst kvs))"

definition weak_check :: "interface \<Rightarrow> (string \<times> jsval) list \<Rightarrow> bool" where
  "weak_check ps kvs = (if is_weak ps then shares_property ps kvs else True)"

fun has_type :: "ty \<Rightarrow> jsval \<Rightarrow> bool" where
  "has_type TNumber v = (case v of JNum x \<Rightarrow> True | _ \<Rightarrow> False)"
| "has_type TString v = (case v of JStr s \<Rightarrow> True | _ \<Rightarrow> False)"
| "has_type TBoolean v = (case v of JBool b \<Rightarrow> True | _ \<Rightarrow> False)"
| "has_type TNull v = (case v of JNull \<Rightarrow> True | _ \<Rightarrow> False)"
| "has_type TNever v = False"
| "has_type (TArray t) v = (case v of JArr vs \<Rightarrow> list_all (has_type t) vs | _ \<Rightarrow> False)"
| "has_type (TUnion a b) v = (has_type a v \<or> has_type b v)"
| "has_type (TIndex t) v =
     (case v of JObj kvs \<Rightarrow> list_all (\<lambda>k. case map_of kvs k of
                                           None \<Rightarrow> True
                                         | Some w \<Rightarrow> has_type t w) (map fst kvs)
              | _ \<Rightarrow> False)"
| "has_type (TObject ps) v =
     (case v of JObj kvs \<Rightarrow> list_all (\<lambda>(k, opt, t). case map_of kvs k of
                                           None \<Rightarrow> opt
                                         | Some w \<Rightarrow> (opt \<and> w = JUndefined) \<or> has_type t w) ps
                            \<and> weak_check ps kvs
              | _ \<Rightarrow> False)"

text \<open>
  The same check for one declared member against the properties of an object, and the
  declared members of an interface against a value.
\<close>

definition member_ok :: "(string \<times> jsval) list \<Rightarrow> member \<Rightarrow> bool" where
  "member_ok kvs p =
     (case map_of kvs (pname p) of
        None \<Rightarrow> poptional p
      | Some w \<Rightarrow> (poptional p \<and> w = JUndefined) \<or> has_type (ptype p) w)"

definition conforms :: "interface \<Rightarrow> jsval \<Rightarrow> bool" where
  "conforms T v = has_type (TObject T) v"

text \<open>Reading a property: \<open>None\<close> when the value has no such property.\<close>

fun get_prop :: "jsval \<Rightarrow> string \<Rightarrow> jsval option" where
  "get_prop (JObj kvs) k = map_of kvs k"
| "get_prop _ k = None"

subsection \<open>Type operators\<close>

text \<open>
  \<^verbatim>\<open>Omit<T, K>\<close> drops the members named in \<open>K\<close> and keeps the modifiers of the others;
  \<^verbatim>\<open>Partial<T>\<close> gives every member the \<^verbatim>\<open>?\<close> modifier; \<^verbatim>\<open>interface X extends B { own }\<close>
  has the members of \<open>B\<close> that \<open>own\<close> does not declare again, and those of \<open>own\<close>.
\<close>

definition Omit :: "interface \<Rightarrow> string list \<Rightarrow> interface" where
  "Omit T ks = filter (\<lambda>p. pname p \<notin> set ks) T"

definition Partial :: "interface \<Rightarrow> interface" where
  "Partial T = map (\<lambda>p. optional (pname p) (ptype p)) T"

definition extends :: "interface \<Rightarrow> interface \<Rightarrow> interface" where
  "extends B own = filter (\<lambda>p. pname p \<notin> set (map pname own)) B @ own"

subsection \<open>The declarations\<close>

definition Allergen :: interface where
  "Allergen =
     [required ''id'' TNumber,
      required ''name'' TString,
      optional ''description'' TString]"

definition MenuItem :: interface where
  "MenuItem =
     [required ''id'' TNumber,
      required ''name'' TString,
      required ''description'' TString,
      required ''price'' TNumber,
      required ''category_id'' TNumber,
      required ''category'' TString,
      required ''is_active'' TBoolean,
      required ''is_available'' TBoolean,
      required ''is_vegetarian'' TBoolean,
      required ''is_vegan'' TBoolean,
      required ''is_gluten_free'' TBoolean,
      required ''spice_level'' TNumber,
      required ''preparation_time'' TNumber,
      required ''average_rating'' TNumber,
      required ''rating_count'' TNumber,
      required ''allergens'' (TArray (TObject Allergen)),
      required ''customization_options'' (TIndex (TArray TString)),
      optional ''image_url'' TString,
      required ''created_at'' TString,
      required ''updated_at'' TString]"

definition Category :: interface where
  "Category =
     [required ''id'' TNumber,
      required ''name'' TString,
      required ''description'' (TUnion TString TNull),
      required ''is_active'' TBoolean,
      required ''created_at'' TString,
      required ''updated_at'' TString]"

definition CategoryCreate :: interface where
  "CategoryCreate =
     [required ''name'' TString,
      required ''description'' (TUnion TString TNull),
      required ''is_active'' TBoolean]"

definition CategoryUpdate :: interface where
  "CategoryUpdate = extends CategoryCreate [optional ''id'' TNever]"

definition MenuItemCreate_omitted :: "string list" where
  "MenuItemCreate_omitted =
     [''id'', ''created_at'', ''updated_at'', ''category'', ''average_rating'', ''rating_count'']"

definition MenuItemCreate :: interface where
  "MenuItemCreate =
     extends (Omit MenuItem MenuItemCreate_omitted)
       [required ''category_id'' TNumber,
        required ''allergen_ids'' (TArray TNumber)]"

definition MenuItemUpdate :: interface where
  "MenuItemUpdate = extends (Partial MenuItemCreate) [optional ''id'' TNever]"

subsection \<open>Payloads\<close>

text \<open>
  Building one object from another, as the client does with
  \<^verbatim>\<open>const { id, ...rest } = item\<close> and \<^verbatim>\<open>{ ...rest, allergen_ids: ids }\<close>.
\<close>

fun omit_props :: "string list \<Rightarrow> jsval \<Rightarrow> jsval" where
  "omit_props ks (JObj kvs) = JObj (filter (\<lambda>(k, w). k \<notin> set ks) kvs)"
| "omit_props ks v = v"

fun with_prop :: "string \<Rightarrow> jsval \<Rightarrow> jsval \<Rightarrow> jsval" where
  "with_prop k w (JObj kvs) = JObj ((k, w) # filter (\<lambda>(k', w'). k' \<noteq> k) kvs)"
| "with_prop k w v = v"

text \<open>Example values, written as the object literals they stand for.\<close>

definition gluten :: jsval where
  "gluten = JObj [(''id'', JNum 1), (''name'', JStr ''Gluten'')]"

definition milk :: jsval where
  "milk =
     JObj [(''id'', JNum 2), (''name'', JStr ''Milk''),
           (''description'', JStr ''Dairy products'')]"

definition margherita_with_count :: "real \<Rightarrow> jsval" where
  "margherita_with_count n =
     JObj [(''id'', JNum 7),
           (''name'', JStr ''Margherita''),
           (''description'', JStr ''Tomato, mozzarella, basil''),
           (''price'', JNum 9.99),
           (''category_id'', JNum 3),
           (''category'', JStr ''Pizza''),
           (''is_active'', JBool True),
           (''is_available'', JBool True),
           (''is_vegetarian'', JBool True),
           (''is_vegan'', JBool False),
           (''is_gluten_free'', JBool False),
           (''spice_level'', JNum 0),
           (''preparation_time'', JNum 15),
           (''average_rating'', JNum 4.5),
           (''rating_count'', JNum n),
           (''allergens'', JArr [gluten, milk]),
           (''customization_options'',
              JObj [(''size'', JArr [JStr ''small'', JStr ''large''])]),
           (''created_at'', JStr ''2024-01-01T00:00:00Z''),
           (''updated_at'', JStr ''2024-01-02T00:00:00Z'')]"

definition margherita :: jsval where
  "margherita = margherita_with_count 12"

definition margherita_create :: jsval where
  "margherita_create =
     JObj [(''name'', JStr ''Margherita''),
           (''description'', JStr ''Tomato, mozzarella, basil''),
           (''price'', JNum 9.99),
           (''category_id'', JNum 3),
           (''is_active'', JBool True),
           (''is_available'', JBool True),
           (''is_vegetarian'', JBool True),
           (''is_vegan'', JBool False),
           (''is_gluten_free'', JBool False),
           (''spice_level'', JNum 0),
           (''preparation_time'', JNum 15),
           (''allergens'', JArr [gluten, milk]),
           (''customization_options'',
              JObj [(''size'', JArr [JStr ''small'', JStr ''large''])]),
           (''allergen_ids'', JArr [JNum 1, JNum 2])]"

definition starters :: jsval where
  "starters =
     JObj [(''id'', JNum 3),
           (''name'', JStr ''Starters''),
           (''description'', JNull),
           (''is_active'', JBool True),
           (''created_at'', JStr ''2024-01-01T00:00:00Z''),
           (''updated_at'', JStr ''2024-01-02T00:00:00Z'')]"

definition desserts_update :: jsval where
  "desserts_update =
     JObj [(''name'', JStr ''Desserts''), (''description'', JNull), (''is_active'', JBool True)]"

definition price_update :: jsval where
  "price_update = JObj [(''price'', JNum 9.99)]"

definition allergens_update :: jsval where
  "allergens_update = JObj [(''allergens'', JArr [gluten, milk]), (''allergen_ids'', JArr [JNum 1])]"

section \<open>Properties of the assignability check\<close>

lemmas member_defs = required_def optional_def pname_def poptional_def ptype_def

lemmas operator_defs = Omit_def Partial_def extends_def

lemma has_type_TNumber: "has_type TNumber v \<longleftrightarrow> (\<exists>x. v = JNum x)"
  by (cases v) simp_all

lemma has_type_TString: "has_type TString v \<longleftrightarrow> (\<exists>s. v = JStr s)"
  by (cases v) simp_all

lemma has_type_TBoolean: "has_type TBoolean v \<longleftrightarrow> (\<exists>b. v = JBool b)"
  by (cases v) simp_all

lemma has_type_TNull: "has_type TNull v \<longleftrightarrow> v = JNull"
  by (cases v) simp_all

lemma has_type_TArray:
  "has_type (TArray t) v \<longleftrightarrow> (\<exists>vs. v = JArr vs \<and> list_all (has_type t) vs)"
  by (cases v) simp_all

lemma has_type_TIndex:
  "has_type (TIndex t) v \<longleftrightarrow>
     (\<exists>os. v = JObj os \<and> (\<forall>k w. map_of os k = Some w \<longrightarrow> has_type t w))"
proof (cases v)
  case (JObj os)
  have "(\<forall>k\<in>set (map fst os). case map_of os k of None \<Rightarrow> True | Some w \<Rightarrow> has_type t w)
          \<longleftrightarrow> (\<forall>k w. map_of os k = Some w \<longrightarrow> has_type t w)"
  proof
    assume all: "\<forall>k\<in>set (map fst os). case map_of os k of None \<Rightarrow> True | Some w \<Rightarrow> has_type t w"
    show "\<forall>k w. map_of os k = Some w \<longrightarrow> has_type t w"
    proof (intro allI impI)
      fix k w
      assume some: "map_of os k = Some w"
      then have "k \<in> set (map fst os)"
        by (metis map_of_eq_None_iff option.distinct(1) set_map)
      with all some show "has_type t w"
        by fastforce
    qed
  next
    assume "\<forall>k w. map_of os k = Some w \<longrightarrow> has_type t w"
    then show "\<forall>k\<in>set (map fst os). case map_of os k of None \<Rightarrow> True | Some w \<Rightarrow> has_type t w"
      by (simp split: option.split)
  qed
  with JObj show ?thesis
    by (simp add: list_all_iff)
qed simp_all

lemma members_JObj:
  "list_all (\<lambda>(k, opt, t). case map_of kvs k of
                None \<Rightarrow> opt
              | Some w \<Rightarrow> (opt \<and> w = JUndefined) \<or> has_type t w) T =
   list_all (member_ok kvs) T"
  by (induction T)
    (simp_all add: member_ok_def member_defs case_prod_unfold cong: option.case_cong)

lemma conforms_JObj:
  "conforms T (JObj kvs) = (list_all (member_ok kvs) T \<and> weak_check T kvs)"
  by (simp add: conforms_def members_JObj)

lemma conforms_object: "conforms T v \<Longrightarrow> \<exists>kvs. v = JObj kvs"
  by (cases v) (simp_all add: conforms_def)

lemma conforms_iff:
  "conforms T v \<longleftrightarrow> (\<exists>kvs. v = JObj kvs \<and> list_all (member_ok kvs) T \<and> weak_check T kvs)"
  using conforms_object conforms_JObj by blast

text \<open>Only an interface without a required member is weak.\<close>

lemma member_simps [simp]:
  "pname (required k t) = k" "pname (optional k t) = k"
  "poptional (required k t) = False" "poptional (optional k t) = True"
  "ptype (required k t) = t" "ptype (optional k t) = t"
  by (simp_all add: member_defs)

lemma weak_check_required:
  assumes "required k t \<in> set T"
  shows "weak_check T kvs"
proof -
  have "\<not> poptional (required k t)"
    by simp
  with assms have "\<not> list_all poptional T"
    unfolding list_all_iff by blast
  then show ?thesis
    by (simp add: weak_check_def is_weak_def)
qed

lemma weak_check_shared:
  assumes "map_of kvs k = Some w" and "k \<in> set (map pname T)"
  shows "weak_check T kvs"
proof -
  from assms(1) have "k \<in> set (map fst kvs)"
    by (metis map_of_eq_None_iff option.distinct(1) set_map)
  with assms(2) have "list_ex (\<lambda>k. k \<in> set (map pname T)) (map fst kvs)"
    unfolding list_ex_iff by blast
  then show ?thesis
    by (simp add: weak_check_def shares_property_def)
qed

lemma member_ok_required:
  "member_ok kvs (required k t) \<longleftrightarrow> (\<exists>w. map_of kvs k = Some w \<and> has_type t w)"
  by (simp add: member_ok_def member_defs split: option.split)

lemma member_ok_optional:
  "member_ok kvs (optional k t) \<longleftrightarrow>
     map_of kvs k = None \<or> map_of kvs k = Some JUndefined \<or>
     (\<exists>w. map_of kvs k = Some w \<and> has_type t w)"
  by (auto simp add: member_ok_def member_defs split: option.split)

lemma member_ok_never:
  "member_ok kvs (optional k TNever) \<longleftrightarrow> map_of kvs k = None \<or> map_of kvs k = Some JUndefined"
  by (simp add: member_ok_optional)

lemma weak_check_required_hd [simp]: "weak_check (required k t # T) kvs"
  by (rule weak_check_required [of k t]) simp

lemmas weak_defs = weak_check_def is_weak_def shares_property_def

text \<open>The members of the derived interfaces, with the type operators evaluated.\<close>

lemma CategoryUpdate_members:
  "CategoryUpdate =
     [required ''name'' TString,
      required ''description'' (TUnion TString TNull),
      required ''is_active'' TBoolean,
      optional ''id'' TNever]"
  by (simp add: CategoryUpdate_def CategoryCreate_def operator_defs member_defs)

lemma MenuItemCreate_members:
  "MenuItemCreate =
     [required ''name'' TString,
      required ''description'' TString,
      required ''price'' TNumber,
      required ''is_active'' TBoolean,
      required ''is_available'' TBoolean,
      required ''is_vegetarian'' TBoolean,
      required ''is_vegan'' TBoolean,
      required ''is_gluten_free'' TBoolean,
      required ''spice_level'' TNumber,
      required ''preparation_time'' TNumber,
      required ''allergens'' (TArray (TObject Allergen)),
      required ''customization_options'' (TIndex (TArray TString)),
      optional ''image_url'' TString,
      required ''category_id'' TNumber,
      required ''allergen_ids'' (TArray TNumber)]"
  by (simp add: MenuItemCreate_def MenuItem_def MenuItemCreate_omitted_def operator_defs member_defs)

lemma MenuItemUpdate_members:
  "MenuItemUpdate =
     [optional ''name'' TString,
      optional ''description'' TString,
      optional ''price'' TNumber,
      optional ''is_active'' TBoolean,
      optional ''is_available'' TBoolean,
      optional ''is_vegetarian'' TBoolean,
      optional ''is_vegan'' TBoolean,
      optional ''is_gluten_free'' TBoolean,
      optional ''spice_level'' TNumber,
      optional ''preparation_time'' TNumber,
      optional ''allergens'' (TArray (TObject Allergen)),
      optional ''customization_options'' (TIndex (TArray TString)),
      optional ''image_url'' TString,
      optional ''category_id'' TNumber,
      optional ''allergen_ids'' (TArray TNumber),
      optional ''id'' TNever]"
  by (simp add: MenuItemUpdate_def MenuItemCreate_members operator_defs member_defs)

lemma forbidden_id:
  assumes "optional ''id'' TNever \<in> set T" and "conforms T v"
  shows "get_prop v ''id'' = None \<or> get_prop v ''id'' = Some JUndefined"
proof -
  from assms(2) obtain kvs where v: "v = JObj kvs" and ok: "list_all (member_ok kvs) T"
    by (auto simp add: conforms_iff)
  from ok assms(1) have "member_ok kvs (optional ''id'' TNever)"
    by (simp add: list_all_iff)
  then show ?thesis
    by (simp add: member_ok_never v)
qed

lemma required_member:
  assumes "required k t \<in> set T" and "conforms T v"
  shows "\<exists>w. get_prop v k = Some w \<and> has_type t w"
proof -
  from assms(2) obtain kvs where v: "v = JObj kvs" and ok: "list_all (member_ok kvs) T"
    by (auto simp add: conforms_iff)
  from ok assms(1) have "member_ok kvs (required k t)"
    by (simp add: list_all_iff)
  then show ?thesis
    by (simp add: member_ok_required v)
qed

lemma optional_member:
  assumes "optional k t \<in> set T" and "conforms T v"
  shows "get_prop v k = None \<or> get_prop v k = Some JUndefined \<or>
         (\<exists>w. get_prop v k = Some w \<and> has_type t w)"
proof -
  from assms(2) obtain kvs where v: "v = JObj kvs" and ok: "list_all (member_ok kvs) T"
    by (auto simp add: conforms_iff)
  from ok assms(1) have "member_ok kvs (optional k t)"
    by (simp add: list_all_iff)
  then show ?thesis
    by (simp add: member_ok_optional v)
qed

lemma required_number:
  "member_ok kvs (required k TNumber) \<longleftrightarrow> (\<exists>x. map_of kvs k = Some (JNum x))"
  by (auto simp add: member_ok_required has_type_TNumber simp del: has_type.simps)

lemma required_string:
  "member_ok kvs (required k TString) \<longleftrightarrow> (\<exists>s. map_of kvs k = Some (JStr s))"
  by (auto simp add: member_ok_required has_type_TString simp del: has_type.simps)

lemma required_boolean:
  "member_ok kvs (required k TBoolean) \<longleftrightarrow> (\<exists>b. map_of kvs k = Some (JBool b))"
  by (auto simp add: member_ok_required has_type_TBoolean simp del: has_type.simps)

lemma optional_string:
  "member_ok kvs (optional k TString) \<longleftrightarrow>
     map_of kvs k = None \<or> map_of kvs k = Some JUndefined \<or>
     (\<exists>s. map_of kvs k = Some (JStr s))"
  by (auto simp add: member_ok_optional has_type_TString simp del: has_type.simps)

lemma required_allergens:
  "member_ok kvs (required k (TArray (TObject Allergen))) \<longleftrightarrow>
     (\<exists>as. map_of kvs k = Some (JArr as) \<and> list_all (conforms Allergen) as)"
  by (auto simp add: member_ok_required has_type_TArray conforms_def [abs_def]
      simp del: has_type.simps)

lemma required_options:
  "member_ok kvs (required k (TIndex (TArray TString))) \<longleftrightarrow>
     (\<exists>os. map_of kvs k = Some (JObj os) \<and>
        (\<forall>k w. map_of os k = Some w \<longrightarrow>
           (\<exists>ss. w = JArr ss \<and> (\<forall>s\<in>set ss. \<exists>str. s = JStr str))))"
  by (auto simp add: member_ok_required has_type_TIndex has_type_TArray has_type_TString
      list_all_iff simp del: has_type.simps)

text \<open>\<^verbatim>\<open>Partial\<close> and the two \<^verbatim>\<open>extends\<close> clauses that add the \<^verbatim>\<open>id\<close> member.\<close>

lemma Partial_ok:
  "list_all (member_ok kvs) (Partial T) \<longleftrightarrow>
     (\<forall>p\<in>set T. map_of kvs (pname p) = None \<or> map_of kvs (pname p) = Some JUndefined \<or>
        (\<exists>w. map_of kvs (pname p) = Some w \<and> has_type (ptype p) w))"
  by (simp add: Partial_def list_all_iff member_ok_optional)

lemma MenuItemUpdate_append: "MenuItemUpdate = Partial MenuItemCreate @ [optional ''id'' TNever]"
  by (simp add: MenuItemUpdate_def MenuItemCreate_members operator_defs member_defs)

lemma CategoryUpdate_append: "CategoryUpdate = CategoryCreate @ [optional ''id'' TNever]"
  by (simp add: CategoryUpdate_def CategoryCreate_def operator_defs member_defs)

lemma MenuItemUpdate_is_weak: "is_weak MenuItemUpdate"
  by (simp add: is_weak_def MenuItemUpdate_members)

lemma MenuItemUpdate_names: "map pname MenuItemUpdate = map pname MenuItemCreate @ [''id'']"
  by (simp add: MenuItemUpdate_append Partial_def comp_def)

lemma MenuItemUpdate_weak_check:
  "weak_check MenuItemUpdate kvs \<longleftrightarrow>
     kvs = [] \<or>
     (\<exists>k w. map_of kvs k = Some w \<and> (k = ''id'' \<or> k \<in> set (map pname MenuItemCreate)))"
proof -
  have keys: "k \<in> set (map fst kvs) \<longleftrightarrow> (\<exists>w. map_of kvs k = Some w)" for k
    by (metis map_of_eq_None_iff not_Some_eq set_map)
  have "weak_check MenuItemUpdate kvs \<longleftrightarrow>
      kvs = [] \<or> (\<exists>k\<in>set (map fst kvs). k \<in> set (map pname MenuItemUpdate))"
    by (simp add: weak_check_def MenuItemUpdate_is_weak shares_property_def list_ex_iff)
  also have "\<dots> \<longleftrightarrow> kvs = [] \<or>
      (\<exists>k. (\<exists>w. map_of kvs k = Some w) \<and> k \<in> set (map pname MenuItemUpdate))"
    unfolding Bex_def keys ..
  also have "\<dots> \<longleftrightarrow> kvs = [] \<or>
      (\<exists>k w. map_of kvs k = Some w \<and> (k = ''id'' \<or> k \<in> set (map pname MenuItemCreate)))"
    unfolding MenuItemUpdate_names by (auto simp del: set_map)
  finally show ?thesis .
qed

text \<open>Properties of the payload built by \<open>omit_props\<close> and \<open>with_prop\<close>.\<close>

lemma map_of_filter_key:
  "map_of (filter (\<lambda>(k, w). P k) kvs) k = (if P k then map_of kvs k else None)"
  by (induction kvs) auto

lemma get_prop_omit_props:
  "get_prop (omit_props ks v) k = (if k \<in> set ks then None else get_prop v k)"
  by (cases v) (simp_all add: map_of_filter_key)

lemma get_prop_with_prop:
  "get_prop (with_prop k' w (JObj kvs)) k = (if k = k' then Some w else map_of kvs k)"
  by (simp add: map_of_filter_key)

lemma with_prop_omit_props:
  "\<exists>kvs'. with_prop k' w (omit_props ks (JObj kvs)) = JObj kvs' \<and>
     (\<forall>k. map_of kvs' k =
        (if k = k' then Some w else if k \<in> set ks then None else map_of kvs k))"
  by (simp add: map_of_filter_key del: filter_filter)

text \<open>The example values are assignable to the interfaces they are examples of.\<close>

lemma gluten_ok: "conforms Allergen gluten"
  by (simp add: gluten_def conforms_JObj Allergen_def member_ok_required member_ok_optional)

lemma milk_ok: "conforms Allergen milk"
  by (simp add: milk_def conforms_JObj Allergen_def member_ok_required member_ok_optional)

lemma allergens_typed: "has_type (TArray (TObject Allergen)) (JArr [gluten, milk])"
  using gluten_ok milk_ok by (simp add: conforms_def)

lemma margherita_with_count_ok: "conforms MenuItem (margherita_with_count n)"
  using allergens_typed
  by (simp add: margherita_with_count_def conforms_JObj MenuItem_def member_ok_required
      member_ok_optional)

lemma margherita_create_ok: "conforms MenuItemCreate margherita_create"
  using allergens_typed
  by (simp add: margherita_create_def conforms_JObj MenuItemCreate_members member_ok_required
      member_ok_optional)

lemma starters_ok: "conforms Category starters"
  by (simp add: starters_def conforms_JObj Category_def member_ok_required)

lemma margherita_ok: "conforms MenuItem margherita"
  by (simp add: margherita_def margherita_with_count_ok)

lemma desserts_create_ok: "conforms CategoryCreate desserts_update"
  by (simp add: desserts_update_def conforms_JObj CategoryCreate_def member_ok_required)

section \<open>The claims\<close>

text \<open>
  C1, as stated, fails. \<^verbatim>\<open>MenuItemCreate\<close> omits six members of \<^verbatim>\<open>MenuItem\<close> and
  \<^verbatim>\<open>allergens\<close> is not one of them: the payload \<open>margherita_create\<close> is assignable to
  \<^verbatim>\<open>MenuItemCreate\<close> and carries two full \<^verbatim>\<open>Allergen\<close> objects under \<^verbatim>\<open>allergens\<close>, and the
  same payload without that property is not assignable.
\<close>

theorem create_allergens_replaced_counterexample:
  "conforms MenuItemCreate margherita_create \<and>
   get_prop margherita_create ''allergens'' = Some (JArr [gluten, milk]) \<and>
   conforms Allergen gluten \<and> conforms Allergen milk \<and>
   \<not> conforms MenuItemCreate (omit_props [''allergens''] margherita_create)"
proof -
  have "\<not> conforms MenuItemCreate (omit_props [''allergens''] margherita_create)"
    by (simp add: margherita_create_def conforms_JObj MenuItemCreate_members member_ok_required)
  moreover have "get_prop margherita_create ''allergens'' = Some (JArr [gluten, milk])"
    by (simp add: margherita_create_def)
  ultimately show ?thesis
    using margherita_create_ok gluten_ok milk_ok by blast
qed

text \<open>
  C1, amended. Every value assignable to \<^verbatim>\<open>MenuItemCreate\<close> has an \<^verbatim>\<open>allergen_ids\<close>
  property holding an array of numbers, and also an \<^verbatim>\<open>allergens\<close> property holding an
  array of values assignable to \<^verbatim>\<open>Allergen\<close>: the identifiers are added beside the
  objects, they do not replace them.
\<close>

theorem create_has_allergen_ids_and_allergens:
  "conforms MenuItemCreate v \<longrightarrow>
     (\<exists>ids. get_prop v ''allergen_ids'' = Some (JArr ids) \<and> list_all (has_type TNumber) ids) \<and>
     (\<exists>as. get_prop v ''allergens'' = Some (JArr as) \<and> list_all (conforms Allergen) as)"
proof
  assume ok: "conforms MenuItemCreate v"
  have "\<exists>w. get_prop v ''allergen_ids'' = Some w \<and> has_type (TArray TNumber) w"
    using ok by (rule required_member [rotated]) (simp add: MenuItemCreate_members)
  moreover have "\<exists>w. get_prop v ''allergens'' = Some w \<and> has_type (TArray (TObject Allergen)) w"
    using ok by (rule required_member [rotated]) (simp add: MenuItemCreate_members)
  ultimately show "(\<exists>ids. get_prop v ''allergen_ids'' = Some (JArr ids) \<and> list_all (has_type TNumber) ids) \<and>
     (\<exists>as. get_prop v ''allergens'' = Some (JArr as) \<and> list_all (conforms Allergen) as)"
    by (auto simp add: has_type_TArray conforms_def [abs_def] simp del: has_type.simps)
qed

theorem create_has_allergen_ids_and_allergens_witness:
  "(\<exists>ids. get_prop margherita_create ''allergen_ids'' = Some (JArr ids) \<and>
          list_all (has_type TNumber) ids) \<and>
   (\<exists>as. get_prop margherita_create ''allergens'' = Some (JArr as) \<and>
          list_all (conforms Allergen) as)"
  using create_has_allergen_ids_and_allergens [of margherita_create] margherita_create_ok
  by simp

text \<open>
  C2, as stated, fails. \<^verbatim>\<open>CategoryUpdate\<close> extends \<^verbatim>\<open>CategoryCreate\<close> itself, not
  \<^verbatim>\<open>Partial<CategoryCreate>\<close>: a payload that lacks any one of \<^verbatim>\<open>name\<close>, \<^verbatim>\<open>description\<close>
  and \<^verbatim>\<open>is_active\<close> is not assignable to it, while the empty object is assignable to
  the create shape with every member made optional.
\<close>

theorem category_update_fields_optional_counterexample:
  "\<not> conforms CategoryUpdate (JObj []) \<and>
   \<not> conforms CategoryUpdate (JObj [(''description'', JNull), (''is_active'', JBool True)]) \<and>
   \<not> conforms CategoryUpdate (JObj [(''name'', JStr ''Desserts''), (''is_active'', JBool True)]) \<and>
   \<not> conforms CategoryUpdate (JObj [(''name'', JStr ''Desserts''), (''description'', JNull)]) \<and>
   conforms (extends (Partial CategoryCreate) [optional ''id'' TNever]) (JObj [])"
  by (simp add: conforms_JObj CategoryUpdate_members member_ok_required)
    (simp add: CategoryCreate_def operator_defs member_defs member_ok_def weak_defs)

text \<open>
  C2, amended. For menu items the update shape is the create shape with every member
  made optional: a value is assignable to \<^verbatim>\<open>MenuItemUpdate\<close> exactly when it is an object
  in which each member of \<^verbatim>\<open>MenuItemCreate\<close> is absent, \<^verbatim>\<open>undefined\<close> or of its declared
  type and \<^verbatim>\<open>id\<close> is absent or \<^verbatim>\<open>undefined\<close>, and which, every member being optional, is
  empty or has at least one property that the type declares. For categories the update
  shape keeps every member of the create shape as it is: a value is assignable to
  \<^verbatim>\<open>CategoryUpdate\<close> exactly when it is assignable to \<^verbatim>\<open>CategoryCreate\<close> and \<^verbatim>\<open>id\<close> is
  absent or \<^verbatim>\<open>undefined\<close>.
\<close>

theorem update_shapes:
  "(conforms MenuItemUpdate v \<longleftrightarrow>
      (\<exists>kvs. v = JObj kvs) \<and>
      (\<forall>p\<in>set MenuItemCreate.
         get_prop v (pname p) = None \<or> get_prop v (pname p) = Some JUndefined \<or>
         (\<exists>w. get_prop v (pname p) = Some w \<and> has_type (ptype p) w)) \<and>
      (get_prop v ''id'' = None \<or> get_prop v ''id'' = Some JUndefined) \<and>
      (v = JObj [] \<or>
       (\<exists>k w. get_prop v k = Some w \<and> (k = ''id'' \<or> k \<in> set (map pname MenuItemCreate))))) \<and>
   (conforms CategoryUpdate v \<longleftrightarrow>
      conforms CategoryCreate v \<and>
      (get_prop v ''id'' = None \<or> get_prop v ''id'' = Some JUndefined))"
proof (cases v)
  case (JObj kvs)
  have menu: "conforms MenuItemUpdate (JObj kvs) \<longleftrightarrow>
      (\<forall>p\<in>set MenuItemCreate.
         map_of kvs (pname p) = None \<or> map_of kvs (pname p) = Some JUndefined \<or>
         (\<exists>w. map_of kvs (pname p) = Some w \<and> has_type (ptype p) w)) \<and>
      (map_of kvs ''id'' = None \<or> map_of kvs ''id'' = Some JUndefined) \<and>
      (kvs = [] \<or>
       (\<exists>k w. map_of kvs k = Some w \<and> (k = ''id'' \<or> k \<in> set (map pname MenuItemCreate))))"
    unfolding conforms_JObj MenuItemUpdate_weak_check
    by (simp add: MenuItemUpdate_append Partial_ok member_ok_never del: has_type.simps)
  have category: "conforms CategoryUpdate (JObj kvs) \<longleftrightarrow>
      conforms CategoryCreate (JObj kvs) \<and>
      (map_of kvs ''id'' = None \<or> map_of kvs ''id'' = Some JUndefined)"
    unfolding conforms_JObj
    by (simp add: CategoryUpdate_append CategoryCreate_def member_ok_never del: has_type.simps)
  show ?thesis
    unfolding JObj using menu category by simp
qed (simp_all add: conforms_def)

theorem update_shapes_witness:
  "conforms MenuItemUpdate (JObj []) \<and>
   \<not> conforms MenuItemUpdate (JObj [(''foo'', JNum 1)]) \<and>
   \<not> conforms CategoryUpdate (JObj [(''id'', JNum 1)]) \<and>
   conforms CategoryUpdate desserts_update"
  using update_shapes [of "JObj []"] update_shapes [of "JObj [(''foo'', JNum 1)]"]
    update_shapes [of "JObj [(''id'', JNum 1)]"] update_shapes [of desserts_update]
    desserts_create_ok
  by (simp add: desserts_update_def MenuItemCreate_members)

text \<open>
  C3. A value whose \<^verbatim>\<open>id\<close> property is present and not \<^verbatim>\<open>undefined\<close> is assignable neither
  to \<^verbatim>\<open>MenuItemUpdate\<close> nor to \<^verbatim>\<open>CategoryUpdate\<close>; the payload
  \<^verbatim>\<open>{ name: "Desserts", description: null, is_active: true }\<close>, which has no \<^verbatim>\<open>id\<close>, is
  assignable to \<^verbatim>\<open>CategoryUpdate\<close>.
\<close>

theorem update_rejects_defined_id:
  "(get_prop v ''id'' = Some w \<and> w \<noteq> JUndefined \<longrightarrow>
      \<not> conforms MenuItemUpdate v \<and> \<not> conforms CategoryUpdate v) \<and>
   get_prop desserts_update ''id'' = None \<and> conforms CategoryUpdate desserts_update"
proof -
  have "\<not> conforms MenuItemUpdate v" if "get_prop v ''id'' = Some w" "w \<noteq> JUndefined"
    using that forbidden_id [of MenuItemUpdate v] by (auto simp add: MenuItemUpdate_members)
  moreover have "\<not> conforms CategoryUpdate v" if "get_prop v ''id'' = Some w" "w \<noteq> JUndefined"
    using that forbidden_id [of CategoryUpdate v] by (auto simp add: CategoryUpdate_members)
  moreover have "conforms CategoryUpdate desserts_update"
    by (simp add: desserts_update_def conforms_JObj CategoryUpdate_members member_ok_required
        member_ok_optional)
  moreover have "get_prop desserts_update ''id'' = None"
    by (simp add: desserts_update_def)
  ultimately show ?thesis by blast
qed

theorem update_rejects_defined_id_witness:
  "\<not> conforms MenuItemUpdate (JObj [(''id'', JNum 7), (''price'', JNum 9.99)]) \<and>
   \<not> conforms CategoryUpdate
       (JObj [(''id'', JNum 7), (''name'', JStr ''Desserts''), (''description'', JNull),
              (''is_active'', JBool True)]) \<and>
   conforms CategoryUpdate desserts_update"
  using update_rejects_defined_id [of "JObj [(''id'', JNum 7), (''price'', JNum 9.99)]" "JNum 7"]
    update_rejects_defined_id
      [of "JObj [(''id'', JNum 7), (''name'', JStr ''Desserts''), (''description'', JNull),
                 (''is_active'', JBool True)]" "JNum 7"]
  by simp

text \<open>
  C4. A payload whose only property is \<^verbatim>\<open>price\<close>, holding any number, is assignable to
  \<^verbatim>\<open>MenuItemUpdate\<close>: the type declares \<^verbatim>\<open>price\<close> as an optional number, and every member
  of \<^verbatim>\<open>MenuItemUpdate\<close> carries the optional modifier.
\<close>

theorem price_only_update_valid:
  "conforms MenuItemUpdate (JObj [(''price'', JNum x)]) \<and>
   map_of MenuItemUpdate ''price'' = Some (True, TNumber) \<and>
   list_all poptional MenuItemUpdate"
proof -
  have "conforms MenuItemUpdate (JObj [(''price'', JNum x)])"
    by (simp add: conforms_JObj MenuItemUpdate_members member_ok_optional weak_defs)
  moreover have "map_of MenuItemUpdate ''price'' = Some (True, TNumber)"
    by (simp add: MenuItemUpdate_members member_defs)
  moreover have "list_all poptional MenuItemUpdate"
    by (simp add: MenuItemUpdate_members)
  ultimately show ?thesis by blast
qed

theorem price_only_update_valid_witness:
  "conforms MenuItemUpdate price_update"
  using price_only_update_valid [of "9.99"]
  by (simp add: price_update_def)

text \<open>
  C5. From a value assignable to \<^verbatim>\<open>MenuItem\<close>, removing exactly the properties \<^verbatim>\<open>id\<close>,
  \<^verbatim>\<open>created_at\<close>, \<^verbatim>\<open>updated_at\<close>, \<^verbatim>\<open>category\<close>, \<^verbatim>\<open>average_rating\<close> and \<^verbatim>\<open>rating_count\<close> and
  adding a non-empty array of numbers as \<^verbatim>\<open>allergen_ids\<close> gives a value assignable to
  \<^verbatim>\<open>MenuItemCreate\<close>.
\<close>

theorem create_from_menu_item:
  "conforms MenuItem v \<and> ids \<noteq> [] \<longrightarrow>
     conforms MenuItemCreate
       (with_prop ''allergen_ids'' (JArr (map JNum ids))
          (omit_props
             [''id'', ''created_at'', ''updated_at'', ''category'', ''average_rating'',
              ''rating_count''] v))"
proof
  assume a: "conforms MenuItem v \<and> ids \<noteq> []"
  then obtain kvs where v: "v = JObj kvs" and ok: "list_all (member_ok kvs) MenuItem"
    by (auto simp add: conforms_iff)
  have ids: "has_type (TArray TNumber) (JArr (map JNum ids))"
    by (simp add: list_all_iff)
  let ?ks = "[''id'', ''created_at'', ''updated_at'', ''category'', ''average_rating'',
              ''rating_count'']"
  obtain kvs' where
    payload: "with_prop ''allergen_ids'' (JArr (map JNum ids)) (omit_props ?ks v) = JObj kvs'"
    and get: "\<And>k. map_of kvs' k =
        (if k = ''allergen_ids'' then Some (JArr (map JNum ids))
         else if k \<in> set ?ks then None else map_of kvs k)"
    using with_prop_omit_props [of "''allergen_ids''" "JArr (map JNum ids)" ?ks kvs]
    unfolding v by blast
  have "list_all (member_ok kvs') MenuItemCreate"
    using ok ids
    by (simp add: MenuItemCreate_members MenuItem_def member_ok_required
        member_ok_optional get del: has_type.simps)
  then show "conforms MenuItemCreate
       (with_prop ''allergen_ids'' (JArr (map JNum ids)) (omit_props ?ks v))"
    by (simp add: payload conforms_JObj MenuItemCreate_members del: has_type.simps)
qed

theorem create_from_menu_item_witness:
  "conforms MenuItemCreate
     (with_prop ''allergen_ids'' (JArr (map JNum [1, 2]))
        (omit_props
           [''id'', ''created_at'', ''updated_at'', ''category'', ''average_rating'',
            ''rating_count''] margherita))"
  using create_from_menu_item [of margherita "[1, 2]"] margherita_with_count_ok [of 12]
  by (simp add: margherita_def)

text \<open>
  C6. In a value assignable to \<^verbatim>\<open>Category\<close> the property \<^verbatim>\<open>description\<close> is present and
  holds \<^verbatim>\<open>null\<close> or a string, and \<open>starters\<close> is such a value holding \<^verbatim>\<open>null\<close>. In a value
  assignable to \<^verbatim>\<open>MenuItem\<close> the property \<^verbatim>\<open>image_url\<close>, and in one assignable to
  \<^verbatim>\<open>Allergen\<close> the property \<^verbatim>\<open>description\<close>, never holds \<^verbatim>\<open>null\<close>, and \<open>margherita\<close> and
  \<open>gluten\<close> are such values in which the property is absent.
\<close>

theorem null_and_absent_are_independent:
  "(conforms Category c \<longrightarrow>
      get_prop c ''description'' = Some JNull \<or>
      (\<exists>s. get_prop c ''description'' = Some (JStr s))) \<and>
   conforms Category starters \<and> get_prop starters ''description'' = Some JNull \<and>
   (conforms MenuItem m \<longrightarrow> get_prop m ''image_url'' \<noteq> Some JNull) \<and>
   conforms MenuItem margherita \<and> get_prop margherita ''image_url'' = None \<and>
   (conforms Allergen a \<longrightarrow> get_prop a ''description'' \<noteq> Some JNull) \<and>
   conforms Allergen gluten \<and> get_prop gluten ''description'' = None"
proof -
  have "get_prop c ''description'' = Some JNull \<or>
        (\<exists>s. get_prop c ''description'' = Some (JStr s))" if "conforms Category c"
    using required_member [of "''description''" "TUnion TString TNull" Category c] that
    by (auto simp add: Category_def has_type_TString has_type_TNull simp del: has_type.simps(1-4))
  moreover have "get_prop m ''image_url'' \<noteq> Some JNull" if "conforms MenuItem m"
    using optional_member [of "''image_url''" TString MenuItem m] that
    by (auto simp add: MenuItem_def)
  moreover have "get_prop a ''description'' \<noteq> Some JNull" if "conforms Allergen a"
    using optional_member [of "''description''" TString Allergen a] that
    by (auto simp add: Allergen_def)
  moreover have "get_prop starters ''description'' = Some JNull"
    "get_prop margherita ''image_url'' = None" "get_prop gluten ''description'' = None"
    by (simp_all add: starters_def margherita_def margherita_with_count_def gluten_def)
  moreover have "conforms MenuItem margherita"
    by (simp add: margherita_def margherita_with_count_ok)
  ultimately show ?thesis
    using starters_ok gluten_ok by blast
qed

theorem null_and_absent_are_independent_witness:
  "(get_prop starters ''description'' = Some JNull \<or>
      (\<exists>s. get_prop starters ''description'' = Some (JStr s))) \<and>
   get_prop margherita ''image_url'' \<noteq> Some JNull \<and>
   get_prop milk ''description'' \<noteq> Some JNull"
  using null_and_absent_are_independent [of starters margherita milk] milk_ok
  by simp

text \<open>
  C7, as stated, fails on \<^verbatim>\<open>rating_count\<close>: the member is declared \<^verbatim>\<open>number\<close> like the other
  numeric members, and a menu item whose \<^verbatim>\<open>rating_count\<close> is \<open>5 / 2\<close> is assignable to
  \<^verbatim>\<open>MenuItem\<close>.
\<close>

theorem menu_item_fractional_count_counterexample:
  "conforms MenuItem (margherita_with_count (5 / 2)) \<and>
   get_prop (margherita_with_count (5 / 2)) ''rating_count'' = Some (JNum (5 / 2)) \<and>
   (5 / 2 :: real) \<notin> \<int>"
  using margherita_with_count_ok [of "5 / 2"]
  by (simp add: margherita_with_count_def)

text \<open>
  C7, amended. \<^verbatim>\<open>MenuItem\<close> declares exactly the twenty members listed, and a value is
  assignable to it exactly when \<^verbatim>\<open>id\<close>, \<^verbatim>\<open>price\<close>, \<^verbatim>\<open>category_id\<close>, \<^verbatim>\<open>spice_level\<close>,
  \<^verbatim>\<open>preparation_time\<close>, \<^verbatim>\<open>average_rating\<close> and \<^verbatim>\<open>rating_count\<close> hold numbers (of which none
  is restricted to integers), \<^verbatim>\<open>name\<close>, \<^verbatim>\<open>description\<close>, \<^verbatim>\<open>category\<close>, \<^verbatim>\<open>created_at\<close> and
  \<^verbatim>\<open>updated_at\<close> hold strings, the five flags hold booleans, \<^verbatim>\<open>allergens\<close> holds an array
  of values assignable to \<^verbatim>\<open>Allergen\<close>, \<^verbatim>\<open>customization_options\<close> holds an object whose
  every property is an array of strings, and \<^verbatim>\<open>image_url\<close> is absent, \<^verbatim>\<open>undefined\<close> or a
  string.
\<close>

theorem menu_item_shape:
  "map pname MenuItem =
     [''id'', ''name'', ''description'', ''price'', ''category_id'', ''category'', ''is_active'',
      ''is_available'', ''is_vegetarian'', ''is_vegan'', ''is_gluten_free'', ''spice_level'',
      ''preparation_time'', ''average_rating'', ''rating_count'', ''allergens'',
      ''customization_options'', ''image_url'', ''created_at'', ''updated_at''] \<and>
   (conforms MenuItem v \<longleftrightarrow>
      (\<exists>x. get_prop v ''id'' = Some (JNum x)) \<and>
      (\<exists>s. get_prop v ''name'' = Some (JStr s)) \<and>
      (\<exists>s. get_prop v ''description'' = Some (JStr s)) \<and>
      (\<exists>x. get_prop v ''price'' = Some (JNum x)) \<and>
      (\<exists>x. get_prop v ''category_id'' = Some (JNum x)) \<and>
      (\<exists>s. get_prop v ''category'' = Some (JStr s)) \<and>
      (\<exists>b. get_prop v ''is_active'' = Some (JBool b)) \<and>
      (\<exists>b. get_prop v ''is_available'' = Some (JBool b)) \<and>
      (\<exists>b. get_prop v ''is_vegetarian'' = Some (JBool b)) \<and>
      (\<exists>b. get_prop v ''is_vegan'' = Some (JBool b)) \<and>
      (\<exists>b. get_prop v ''is_gluten_free'' = Some (JBool b)) \<and>
      (\<exists>x. get_prop v ''spice_level'' = Some (JNum x)) \<and>
      (\<exists>x. get_prop v ''preparation_time'' = Some (JNum x)) \<and>
      (\<exists>x. get_prop v ''average_rating'' = Some (JNum x)) \<and>
      (\<exists>x. get_prop v ''rating_count'' = Some (JNum x)) \<and>
      (\<exists>as. get_prop v ''allergens'' = Some (JArr as) \<and> list_all (conforms Allergen) as) \<and>
      (\<exists>os. get_prop v ''customization_options'' = Some (JObj os) \<and>
         (\<forall>k w. map_of os k = Some w \<longrightarrow>
            (\<exists>ss. w = JArr ss \<and> (\<forall>s\<in>set ss. \<exists>str. s = JStr str)))) \<and>
      (get_prop v ''image_url'' = None \<or> get_prop v ''image_url'' = Some JUndefined \<or>
         (\<exists>s. get_prop v ''image_url'' = Some (JStr s))) \<and>
      (\<exists>s. get_prop v ''created_at'' = Some (JStr s)) \<and>
      (\<exists>s. get_prop v ''updated_at'' = Some (JStr s)))"
proof
  show "map pname MenuItem =
     [''id'', ''name'', ''description'', ''price'', ''category_id'', ''category'', ''is_active'',
      ''is_available'', ''is_vegetarian'', ''is_vegan'', ''is_gluten_free'', ''spice_level'',
      ''preparation_time'', ''average_rating'', ''rating_count'', ''allergens'',
      ''customization_options'', ''image_url'', ''created_at'', ''updated_at'']"
    by (simp add: MenuItem_def member_defs)
next
  show "conforms MenuItem v \<longleftrightarrow>
      (\<exists>x. get_prop v ''id'' = Some (JNum x)) \<and>
      (\<exists>s. get_prop v ''name'' = Some (JStr s)) \<and>
      (\<exists>s. get_prop v ''description'' = Some (JStr s)) \<and>
      (\<exists>x. get_prop v ''price'' = Some (JNum x)) \<and>
      (\<exists>x. get_prop v ''category_id'' = Some (JNum x)) \<and>
      (\<exists>s. get_prop v ''category'' = Some (JStr s)) \<and>
      (\<exists>b. get_prop v ''is_active'' = Some (JBool b)) \<and>
      (\<exists>b. get_prop v ''is_available'' = Some (JBool b)) \<and>
      (\<exists>b. get_prop v ''is_vegetarian'' = Some (JBool b)) \<and>
      (\<exists>b. get_prop v ''is_vegan'' = Some (JBool b)) \<and>
      (\<exists>b. get_prop v ''is_gluten_free'' = Some (JBool b)) \<and>
      (\<exists>x. get_prop v ''spice_level'' = Some (JNum x)) \<and>
      (\<exists>x. get_prop v ''preparation_time'' = Some (JNum x)) \<and>
      (\<exists>x. get_prop v ''average_rating'' = Some (JNum x)) \<and>
      (\<exists>x. get_prop v ''rating_count'' = Some (JNum x)) \<and>
      (\<exists>as. get_prop v ''allergens'' = Some (JArr as) \<and> list_all (conforms Allergen) as) \<and>
      (\<exists>os. get_prop v ''customization_options'' = Some (JObj os) \<and>
         (\<forall>k w. map_of os k = Some w \<longrightarrow>
            (\<exists>ss. w = JArr ss \<and> (\<forall>s\<in>set ss. \<exists>str. s = JStr str)))) \<and>
      (get_prop v ''image_url'' = None \<or> get_prop v ''image_url'' = Some JUndefined \<or>
         (\<exists>s. get_prop v ''image_url'' = Some (JStr s))) \<and>
      (\<exists>s. get_prop v ''created_at'' = Some (JStr s)) \<and>
      (\<exists>s. get_prop v ''updated_at'' = Some (JStr s))"
  proof (cases v)
    case (JObj kvs)
    show ?thesis
      unfolding JObj conforms_JObj MenuItem_def
      by (simp add: required_number required_string required_boolean optional_string
          required_allergens required_options del: has_type.simps)
  qed (simp_all add: conforms_def)
qed

theorem menu_item_shape_witness:
  "\<exists>os. get_prop margherita ''customization_options'' = Some (JObj os) \<and>
     (\<forall>k w. map_of os k = Some w \<longrightarrow>
        (\<exists>ss. w = JArr ss \<and> (\<forall>s\<in>set ss. \<exists>str. s = JStr str)))"
  using menu_item_shape [of margherita] margherita_with_count_ok [of 12]
  by (simp add: margherita_def)

text \<open>
  C8. Every value assignable to \<^verbatim>\<open>MenuItemCreate\<close> has a \<^verbatim>\<open>category_id\<close> property holding a
  number. \<^verbatim>\<open>MenuItemCreate\<close> declares \<^verbatim>\<open>category_id\<close> once, required and of type
  \<^verbatim>\<open>number\<close>, as \<^verbatim>\<open>MenuItem\<close> does, and the interface without the redeclaration has the
  same values.
\<close>

theorem create_category_id_required:
  "(conforms MenuItemCreate v \<longrightarrow> (\<exists>x. get_prop v ''category_id'' = Some (JNum x))) \<and>
   map_of MenuItemCreate ''category_id'' = Some (False, TNumber) \<and>
   map_of MenuItem ''category_id'' = Some (False, TNumber) \<and>
   filter (\<lambda>p. pname p = ''category_id'') MenuItemCreate = [required ''category_id'' TNumber] \<and>
   conforms MenuItemCreate v =
     conforms (extends (Omit MenuItem MenuItemCreate_omitted)
                 [required ''allergen_ids'' (TArray TNumber)]) v"
proof -
  have "\<exists>x. get_prop v ''category_id'' = Some (JNum x)" if "conforms MenuItemCreate v"
    using required_member [of "''category_id''" TNumber MenuItemCreate v] that
    by (auto simp add: MenuItemCreate_members has_type_TNumber simp del: has_type.simps)
  moreover have "map_of MenuItemCreate ''category_id'' = Some (False, TNumber)"
    by (simp add: MenuItemCreate_members member_defs)
  moreover have "map_of MenuItem ''category_id'' = Some (False, TNumber)"
    by (simp add: MenuItem_def member_defs)
  moreover have "filter (\<lambda>p. pname p = ''category_id'') MenuItemCreate =
      [required ''category_id'' TNumber]"
    by (simp add: MenuItemCreate_members member_defs)
  moreover have "conforms MenuItemCreate v =
     conforms (extends (Omit MenuItem MenuItemCreate_omitted)
                 [required ''allergen_ids'' (TArray TNumber)]) v"
  proof -
    have inherited: "extends (Omit MenuItem MenuItemCreate_omitted)
            [required ''allergen_ids'' (TArray TNumber)] =
          [required ''name'' TString,
           required ''description'' TString,
           required ''price'' TNumber,
           required ''category_id'' TNumber,
           required ''is_active'' TBoolean,
           required ''is_available'' TBoolean,
           required ''is_vegetarian'' TBoolean,
           required ''is_vegan'' TBoolean,
           required ''is_gluten_free'' TBoolean,
           required ''spice_level'' TNumber,
           required ''preparation_time'' TNumber,
           required ''allergens'' (TArray (TObject Allergen)),
           required ''customization_options'' (TIndex (TArray TString)),
           optional ''image_url'' TString,
           required ''allergen_ids'' (TArray TNumber)]"
      by (simp add: MenuItem_def MenuItemCreate_omitted_def operator_defs member_defs)
    show ?thesis
      unfolding conforms_iff inherited MenuItemCreate_members
      by (simp del: has_type.simps) blast
  qed
  ultimately show ?thesis by blast
qed

theorem create_category_id_required_witness:
  "\<exists>x. get_prop margherita_create ''category_id'' = Some (JNum x)"
  using create_category_id_required [of margherita_create] margherita_create_ok
  by simp

text \<open>
  C9. In a value assignable to \<^verbatim>\<open>CategoryUpdate\<close> or to \<^verbatim>\<open>MenuItemUpdate\<close>, an \<^verbatim>\<open>id\<close>
  property that is present holds \<^verbatim>\<open>undefined\<close>; and the payloads
  \<^verbatim>\<open>{ id: undefined, name: "Desserts", description: null, is_active: true }\<close> and
  \<^verbatim>\<open>{ id: undefined, price: 9.99 }\<close> are assignable to the two types.
\<close>

theorem update_id_only_undefined:
  "((conforms CategoryUpdate v \<or> conforms MenuItemUpdate v) \<and> get_prop v ''id'' = Some w
      \<longrightarrow> w = JUndefined) \<and>
   conforms CategoryUpdate (with_prop ''id'' JUndefined desserts_update) \<and>
   get_prop (with_prop ''id'' JUndefined desserts_update) ''id'' = Some JUndefined \<and>
   conforms MenuItemUpdate (with_prop ''id'' JUndefined price_update) \<and>
   get_prop (with_prop ''id'' JUndefined price_update) ''id'' = Some JUndefined"
proof -
  have "w = JUndefined" if "conforms CategoryUpdate v" "get_prop v ''id'' = Some w"
    using that forbidden_id [of CategoryUpdate v] by (simp add: CategoryUpdate_members)
  moreover have "w = JUndefined" if "conforms MenuItemUpdate v" "get_prop v ''id'' = Some w"
    using that forbidden_id [of MenuItemUpdate v] by (simp add: MenuItemUpdate_members)
  moreover have "conforms CategoryUpdate (with_prop ''id'' JUndefined desserts_update)"
    by (simp add: desserts_update_def conforms_JObj CategoryUpdate_members member_ok_required
        member_ok_optional)
  moreover have "conforms MenuItemUpdate (with_prop ''id'' JUndefined price_update)"
    by (simp add: price_update_def conforms_JObj MenuItemUpdate_members member_ok_optional
        weak_defs)
  moreover have "get_prop (with_prop ''id'' JUndefined desserts_update) ''id'' = Some JUndefined"
    "get_prop (with_prop ''id'' JUndefined price_update) ''id'' = Some JUndefined"
    by (simp_all add: desserts_update_def price_update_def)
  ultimately show ?thesis by blast
qed

theorem update_id_only_undefined_witness:
  "conforms MenuItemUpdate (JObj [(''id'', JUndefined), (''price'', JNum 9.99)]) \<and>
   get_prop (JObj [(''id'', JUndefined), (''price'', JNum 9.99)]) ''id'' = Some JUndefined"
  using update_id_only_undefined
    [of "JObj [(''id'', JUndefined), (''price'', JNum 9.99)]" JUndefined]
  by (simp add: price_update_def)

text \<open>
  C10. \<^verbatim>\<open>MenuItemUpdate\<close> declares an optional \<^verbatim>\<open>allergens\<close> member of type
  \<^verbatim>\<open>Allergen[]\<close> beside the optional \<^verbatim>\<open>allergen_ids\<close> member of type \<^verbatim>\<open>number[]\<close>, and an
  update payload that carries full \<^verbatim>\<open>Allergen\<close> objects, with or without identifiers, is
  assignable to it.
\<close>

theorem update_admits_allergen_objects:
  "map_of MenuItemUpdate ''allergens'' = Some (True, TArray (TObject Allergen)) \<and>
   map_of MenuItemUpdate ''allergen_ids'' = Some (True, TArray TNumber) \<and>
   conforms MenuItemUpdate allergens_update \<and>
   get_prop allergens_update ''allergens'' = Some (JArr [gluten, milk]) \<and>
   conforms Allergen gluten \<and> conforms Allergen milk \<and>
   conforms MenuItemUpdate (JObj [(''allergens'', JArr [gluten, milk])])"
proof -
  have "map_of MenuItemUpdate ''allergens'' = Some (True, TArray (TObject Allergen))"
    "map_of MenuItemUpdate ''allergen_ids'' = Some (True, TArray TNumber)"
    by (simp_all add: MenuItemUpdate_members member_defs)
  moreover have "conforms MenuItemUpdate allergens_update"
    using allergens_typed
    by (simp add: allergens_update_def conforms_JObj MenuItemUpdate_members member_ok_optional
        weak_defs)
  moreover have "conforms MenuItemUpdate (JObj [(''allergens'', JArr [gluten, milk])])"
    using allergens_typed
    by (simp add: conforms_JObj MenuItemUpdate_members member_ok_optional weak_defs)
  moreover have "get_prop allergens_update ''allergens'' = Some (JArr [gluten, milk])"
    by (simp add: allergens_update_def)
  ultimately show ?thesis
    using gluten_ok milk_ok by blast
qed

end
